theory Spec2Isabelle
  imports Complex_Main
begin

section \<open>The technology class of technology.cpp\<close>

text \<open>
  A shallow embedding of \<^verbatim>\<open>objects/technologies/source/technology.cpp\<close>.
  Every C++ \<^verbatim>\<open>double\<close> is a \<^typ>\<open>real\<close>: sums, products, quotients and comparisons
  are those of the real numbers, with no rounding and no overflow. An infinity
  or a NaN is no real number: where the source can compute one from its
  arguments (a quotient by the sum of \<^verbatim>\<open>normShare\<close>, by the demand or the variable
  share total of \<^verbatim>\<open>adjShares\<close>, a power in \<^verbatim>\<open>calcShare\<close>) the model computes the
  value with \<open>fdiv\<close> and \<open>pow\<close> below, which have no result there, so that a
  test the source makes before it divides can be told from its absence. The
  efficiency is positive by the source's own contract (the \<^verbatim>\<open>assert\<close>s of
  \<^verbatim>\<open>getInputRequiredForOutput\<close> and \<^verbatim>\<open>getIntensity\<close>) and is divided by as a real.
  Member functions take the object as their last argument and return the
  updated object. Calls into collaborators whose code is elsewhere (the
  marketplace, the loggers, the dependency finder, the output and gas objects)
  are recorded as a list of events in the order in which they are made.
\<close>

subsection \<open>Collaborator objects, seen through the methods the technology calls\<close>

text \<open>The technology information object behind \<^verbatim>\<open>mTechData\<close>, one field per getter.\<close>

record ITechnologyInfo =
  fuelname :: string
  efficiency :: real
  efficiencyPenalty :: real
  nonenergycost :: real
  neCostPenalty :: real
  fMultiplier :: real
  fuelprefElasticity :: real

text \<open>The calibration object behind \<^verbatim>\<open>mCalValue\<close>; both getters take the efficiency.\<close>

record ICalData =
  getCalInput :: "real \<Rightarrow> real"
  getCalOutput :: "real \<Rightarrow> real"

text \<open>
  An output object: the primary output of a sector, or a secondary output with
  its name and its \<^verbatim>\<open>getValue( region, period )\<close>.
\<close>

datatype IOutput =
  PrimaryOutput string
| SecondaryOutput string "string \<Rightarrow> int \<Rightarrow> real"

text \<open>
  \<^verbatim>\<open>IOutput::getValue\<close>. For the primary output the value is zero, as the comment in
  \<^verbatim>\<open>calcSecondaryValue\<close> states.
\<close>

fun getValue :: "IOutput \<Rightarrow> string \<Rightarrow> int \<Rightarrow> real" where
  "getValue (PrimaryOutput n) aRegionName aPeriod = 0"
| "getValue (SecondaryOutput n v) aRegionName aPeriod = v aRegionName aPeriod"

text \<open>
  A gas object: its name, \<^verbatim>\<open>getGHGValue( region, fuel, outputs, efficiency, period )\<close>,
  \<^verbatim>\<open>getEmission( period )\<close>, \<^verbatim>\<open>getEmissFuel( period )\<close> and the two sequestered amounts.
\<close>

record AGHG =
  getName :: string
  getGHGValue :: "string \<Rightarrow> string \<Rightarrow> IOutput list \<Rightarrow> real \<Rightarrow> int \<Rightarrow> real"
  getEmission :: "int \<Rightarrow> real"
  getEmissFuel :: "int \<Rightarrow> real"
  getSequestAmountGeologic :: real
  getSequestAmountNonEngy :: real

text \<open>
  What the technology reads from the rest of the model: the marketplace prices
  and the sentinel for a missing price, the two constants of \<^verbatim>\<open>util\<close>, the
  comparison \<^verbatim>\<open>util::isEqual\<close>, the model time, the configuration switch
  \<^verbatim>\<open>debugChecking\<close>, the constructor and \<^verbatim>\<open>completeInit\<close> of the
  technology information object. Their code is outside
  \<^verbatim>\<open>technology.cpp\<close>, so they are parameters.
\<close>

record environment =
  getPrice :: "string \<Rightarrow> string \<Rightarrow> int \<Rightarrow> real"
  NO_MARKET_PRICE :: real
  getLargeNumber :: real
  getSmallNumber :: real
  isEqual :: "real \<Rightarrow> real \<Rightarrow> bool"
  getper_to_yr :: "int \<Rightarrow> int"
  debugChecking :: bool
  GenericTechnologyInfo :: "string \<Rightarrow> ITechnologyInfo"
  techDataCompleteInit :: "ITechnologyInfo \<Rightarrow> ITechnologyInfo"

subsection \<open>Events\<close>

datatype log_level = DEBUG | WARNING | ERROR

datatype msg_part = Str string | Num real

text \<open>
  One event per call that leaves the technology: a line written to
  \<^verbatim>\<open>main_log\<close> (its level and the pieces streamed into it), a demand added to the
  marketplace, a dependency added to the dependency finder, and the calls on
  the output and gas objects (with the index of the object).
\<close>

datatype event =
  Log log_level "msg_part list"
| AddToDemand string string real int
| AddDependency string string
| OutputCompleteInit nat string bool
| SetPhysicalOutput nat real string int
| GHGCalcEmission nat string string real int

text \<open>
  What ends a call of the model without a technology: a dereference of
  \<^verbatim>\<open>mTechData\<close> while it is null, an \<^verbatim>\<open>assert\<close> that fails, or a computed double
  that is an infinity or a NaN (the source goes on with it; the model has no
  such value to store).
\<close>

datatype error = NullTechData | AssertionFailed | NonFinite

text \<open>
  The quotient of two doubles. With a divisor of 0 the source gets an infinity
  (or a NaN for \<open>0 / 0\<close>).
\<close>

definition fdiv :: "real \<Rightarrow> real \<Rightarrow> error + real" where
  "fdiv x y = (if y = 0 then Inl NonFinite else Inr (x / y))"

subsection \<open>The technology\<close>

record technology =
  mName :: string
  year :: int
  shrwts :: real
  fuelcost :: real
  techcost :: real
  pMultiplier :: real
  lexp :: real
  share :: real
  input :: real
  fixedOutput :: real
  fixedOutputVal :: real
  mGetGlobalTech :: bool
  mTechData :: "ITechnologyInfo option"
  mCalValue :: "ICalData option"
  ghg :: "AGHG list"
  ghgNameMap :: "string \<rightharpoonup> int"
  mOutputs :: "IOutput list"
  emissmap :: "string \<rightharpoonup> real"
  emfuelmap :: "string \<rightharpoonup> real"

definition LOGIT_EXP_DEFAULT :: real where
  "LOGIT_EXP_DEFAULT = - 6"

definition getFixedOutputDefault :: real where
  "getFixedOutputDefault = - 1"

text \<open>
  The constructor \<^verbatim>\<open>technology( aName, aYear )\<close> with \<^verbatim>\<open>initElementalMembers\<close>: the
  pointers are null, the vectors and maps empty.
\<close>

definition new_technology :: "string \<Rightarrow> int \<Rightarrow> technology" where
  "new_technology aName aYear =
     \<lparr> mName = aName, year = aYear,
       shrwts = 1, fuelcost = 0, techcost = 0, pMultiplier = 1,
       lexp = LOGIT_EXP_DEFAULT, share = 0, input = 0,
       fixedOutput = getFixedOutputDefault, fixedOutputVal = getFixedOutputDefault,
       mGetGlobalTech = False,
       mTechData = None, mCalValue = None,
       ghg = [], ghgNameMap = Map.empty, mOutputs = [],
       emissmap = Map.empty, emfuelmap = Map.empty \<rparr>"

subsection \<open>Shares\<close>

definition normShare :: "real \<Rightarrow> technology \<Rightarrow> error + technology" where
  "normShare aSum t =
     (if aSum = 0 then Inr (t\<lparr>share := 0\<rparr>)
      else (case fdiv (share t) aSum of
              Inl e \<Rightarrow> Inl e
            | Inr q \<Rightarrow> Inr (t\<lparr>share := q\<rparr>)))"

definition resetFixedOutput :: "int \<Rightarrow> technology \<Rightarrow> technology" where
  "resetFixedOutput per t =
     (if fixedOutput t \<ge> 0 then t\<lparr>fixedOutputVal := fixedOutput t\<rparr> else t)"

definition scaleFixedOutput :: "real \<Rightarrow> technology \<Rightarrow> technology" where
  "scaleFixedOutput scaleRatio t =
     (if fixedOutputVal t \<ge> 0 then t\<lparr>fixedOutputVal := fixedOutputVal t * scaleRatio\<rparr> else t)"

text \<open>
  \<^verbatim>\<open>adjShares\<close>. The local \<^verbatim>\<open>remainingDemand\<close> starts at 0 and is only set inside the
  outer test; the share is assigned before the fixed value is downgraded.
\<close>

definition adjShares :: "real \<Rightarrow> real \<Rightarrow> real \<Rightarrow> int \<Rightarrow> technology
    \<Rightarrow> error + technology" where
  "adjShares subsecdmd subsecfixedOutput varShareTot per t =
     (if subsecfixedOutput > 0 then
        (let remainingDemand0 = subsecdmd - subsecfixedOutput;
             remainingDemand = (if remainingDemand0 < 0 then 0 else remainingDemand0)
         in if fixedOutputVal t \<ge> 0 then
              (if subsecdmd > 0 then
                 (case fdiv (fixedOutputVal t) subsecdmd of
                    Inl e \<Rightarrow> Inl e
                  | Inr q \<Rightarrow>
                      (let t1 = t\<lparr>share := q\<rparr>
                       in if fixedOutputVal t1 > subsecdmd
                          then Inr (t1\<lparr>fixedOutputVal := subsecfixedOutput\<rparr>)
                          else Inr t1))
               else Inr (t\<lparr>share := 0\<rparr>))
            else
              (if subsecdmd > 0 then
                 (case fdiv remainingDemand subsecdmd of
                    Inl e \<Rightarrow> Inl e
                  | Inr r \<Rightarrow>
                      (case fdiv (share t * r) varShareTot of
                         Inl e \<Rightarrow> Inl e
                       | Inr q \<Rightarrow> Inr (t\<lparr>share := q\<rparr>)))
               else Inr (t\<lparr>share := 0\<rparr>)))
      else Inr t)"

subsection \<open>Efficiency, costs and fixed input\<close>

definition getEfficiency :: "int \<Rightarrow> technology \<Rightarrow> error + real" where
  "getEfficiency aPeriod t =
     (case mTechData t of
        None \<Rightarrow> Inl NullTechData
      | Some d \<Rightarrow> Inr (efficiency d * (1 - efficiencyPenalty d)))"

definition getNonEnergyCost :: "int \<Rightarrow> technology \<Rightarrow> error + real" where
  "getNonEnergyCost aPeriod t =
     (case mTechData t of
        None \<Rightarrow> Inl NullTechData
      | Some d \<Rightarrow> Inr (nonenergycost d * (1 + neCostPenalty d)))"

text \<open>
  \<^verbatim>\<open>getFixedInput\<close>: the efficiency is only read when neither test of the
  \<^verbatim>\<open>if\<close> holds.
\<close>

definition getFixedInput :: "environment \<Rightarrow> int \<Rightarrow> technology \<Rightarrow> error + real" where
  "getFixedInput env aPeriod t =
     (if fixedOutputVal t = getFixedOutputDefault \<or> year t \<noteq> getper_to_yr env aPeriod
      then Inr 0
      else (case getEfficiency aPeriod t of
              Inl e \<Rightarrow> Inl e
            | Inr eff \<Rightarrow> Inr (fixedOutputVal t / eff)))"

text \<open>
  The first loop of \<^verbatim>\<open>calcSecondaryValue\<close>, over the gases: each pass reads the fuel
  name and the efficiency through \<^verbatim>\<open>mTechData\<close> and subtracts the value of the gas.
\<close>

fun ghgValueLoop :: "string \<Rightarrow> int \<Rightarrow> technology \<Rightarrow> AGHG list \<Rightarrow> real \<Rightarrow> error + real" where
  "ghgValueLoop aRegionName aPeriod t [] totalValue = Inr totalValue"
| "ghgValueLoop aRegionName aPeriod t (g # gs) totalValue =
     (case mTechData t of
        None \<Rightarrow> Inl NullTechData
      | Some d \<Rightarrow>
          (case getEfficiency aPeriod t of
             Inl e \<Rightarrow> Inl e
           | Inr eff \<Rightarrow>
               ghgValueLoop aRegionName aPeriod t gs
                 (totalValue - getGHGValue g aRegionName (fuelname d) (mOutputs t) eff aPeriod)))"

text \<open>The second loop, over the outputs, adds the value of each output.\<close>

fun outputValueLoop :: "string \<Rightarrow> int \<Rightarrow> IOutput list \<Rightarrow> real \<Rightarrow> real" where
  "outputValueLoop aRegionName aPeriod [] totalValue = totalValue"
| "outputValueLoop aRegionName aPeriod (out # outs) totalValue =
     outputValueLoop aRegionName aPeriod outs (totalValue + getValue out aRegionName aPeriod)"

definition calcSecondaryValue :: "string \<Rightarrow> int \<Rightarrow> technology \<Rightarrow> error + real" where
  "calcSecondaryValue aRegionName aPeriod t =
     (case ghgValueLoop aRegionName aPeriod t (ghg t) 0 of
        Inl e \<Rightarrow> Inl e
      | Inr totalValue \<Rightarrow> Inr (outputValueLoop aRegionName aPeriod (mOutputs t) totalValue))"

text \<open>
  The price that \<^verbatim>\<open>calcCost\<close> works with, and the line it writes to the log when the
  marketplace has no price for the fuel.
\<close>

definition fuelprice :: "environment \<Rightarrow> string \<Rightarrow> string \<Rightarrow> string \<Rightarrow> string \<Rightarrow> int
    \<Rightarrow> real \<times> event list" where
  "fuelprice env aFuelName aName sectorName regionName per =
     (if (aFuelName = ''none'' \<or> aFuelName = []) \<or> aFuelName = ''renewable'' then (0, [])
      else
        (let p = getPrice env aFuelName regionName per
         in if p = NO_MARKET_PRICE env then
              (getLargeNumber env,
               [Log ERROR [Str ''Requested fuel >'', Str aFuelName,
                           Str ''< with no price in technology '', Str aName,
                           Str '' in sector '', Str sectorName,
                           Str '' in region '', Str regionName, Str ''.'']])
            else (p, [])))"

definition calcCost :: "environment \<Rightarrow> string \<Rightarrow> string \<Rightarrow> int \<Rightarrow> technology
    \<Rightarrow> error + technology \<times> event list" where
  "calcCost env regionName sectorName per t =
     (case mTechData t of
        None \<Rightarrow> Inl NullTechData
      | Some d \<Rightarrow>
          (let (price, evs) = fuelprice env (fuelname d) (mName t) sectorName regionName per
           in case getEfficiency per t of
                Inl e \<Rightarrow> Inl e
              | Inr eff \<Rightarrow>
                  (let t1 = t\<lparr>fuelcost := (price * fMultiplier d) / eff\<rparr>
                   in case getNonEnergyCost per t1 of
                        Inl e \<Rightarrow> Inl e
                      | Inr nec \<Rightarrow>
                          (let t2 = t1\<lparr>techcost := (fuelcost t1 + nec) * pMultiplier t1\<rparr>
                           in case calcSecondaryValue regionName per t2 of
                                Inl e \<Rightarrow> Inl e
                              | Inr sv \<Rightarrow>
                                  (let t3 = t2\<lparr>techcost := techcost t2 - sv\<rparr>;
                                       t4 = t3\<lparr>techcost := max (techcost t3) (getSmallNumber env)\<rparr>
                                   in Inr (t4, evs))))))"

subsection \<open>Unnormalized share\<close>


text \<open>The regional GDP object, seen through \<^verbatim>\<open>getBestScaledGDPperCap( period )\<close>.\<close>

type_synonym GDP = "int \<Rightarrow> real"


subsection \<open>Calibration\<close>

definition getCalibrationOutput :: "environment \<Rightarrow> int \<Rightarrow> technology \<Rightarrow> error + real" where
  "getCalibrationOutput env aPeriod t =
     (case mCalValue t of
        None \<Rightarrow> Inr 0
      | Some c \<Rightarrow>
          (if year t = getper_to_yr env aPeriod then
             (case getEfficiency aPeriod t of
                Inl e \<Rightarrow> Inl e
              | Inr eff \<Rightarrow> Inr (getCalOutput c eff))
           else Inr 0))"

definition adjustForCalibration :: "environment \<Rightarrow> real \<Rightarrow> string \<Rightarrow> int \<Rightarrow> technology
    \<Rightarrow> error + technology \<times> event list" where
  "adjustForCalibration env subSectorDemand regionName period t =
     (case getCalibrationOutput env period t of
        Inl e \<Rightarrow> Inl e
      | Inr calOutput \<Rightarrow>
          (let t1 = (if shrwts t = 0 \<and> calOutput > 0 then t\<lparr>shrwts := 1\<rparr> else t);
               technologyDemand = share t1 * subSectorDemand;
               t2 = (if technologyDemand > 0
                     then (let shareScaleValue = calOutput / technologyDemand
                           in t1\<lparr>shrwts := shrwts t1 * shareScaleValue\<rparr>)
                     else t1);
               (t3, evs3) =
                 (if shrwts t2 < 0 then
                    (t2\<lparr>shrwts := 1\<rparr>,
                     [Log WARNING [Str ''Share weight is less than zero in technology '',
                                   Str (mName t2)],
                      Log WARNING [Str ''Share weight was '', Num (shrwts t2),
                                   Str ''(reset to 1)'']])
                  else (t2, []));
               evs4 =
                 (if debugChecking env \<and> shrwts t3 > 1000000 then
                    [Log WARNING [Str ''Large share weight in calibration for technology: '',
                                  Str (mName t3)]]
                  else [])
           in Inr (t3, evs3 @ evs4)))"

subsection \<open>Production\<close>

text \<open>
  \<^verbatim>\<open>calcEmissionsAndOutputs\<close>: one call of \<^verbatim>\<open>setPhysicalOutput\<close> per output, then one
  call of \<^verbatim>\<open>calcEmission\<close> per gas; the fuel name is read through \<^verbatim>\<open>mTechData\<close> in
  each pass of the second loop.
\<close>

fun ghgCalcEmissionLoop :: "string \<Rightarrow> real \<Rightarrow> int \<Rightarrow> technology \<Rightarrow> nat \<Rightarrow> AGHG list
    \<Rightarrow> error + event list" where
  "ghgCalcEmissionLoop aRegionName aInput aPeriod t i [] = Inr []"
| "ghgCalcEmissionLoop aRegionName aInput aPeriod t i (g # gs) =
     (case mTechData t of
        None \<Rightarrow> Inl NullTechData
      | Some d \<Rightarrow>
          (case ghgCalcEmissionLoop aRegionName aInput aPeriod t (Suc i) gs of
             Inl e \<Rightarrow> Inl e
           | Inr evs \<Rightarrow> Inr (GHGCalcEmission i aRegionName (fuelname d) aInput aPeriod # evs)))"

definition calcEmissionsAndOutputs :: "string \<Rightarrow> real \<Rightarrow> real \<Rightarrow> GDP \<Rightarrow> int \<Rightarrow> technology
    \<Rightarrow> error + event list" where
  "calcEmissionsAndOutputs aRegionName aInput aPrimaryOutput aGDP aPeriod t =
     (let evs1 = map (\<lambda>i. SetPhysicalOutput i aPrimaryOutput aRegionName aPeriod)
                   [0 ..< length (mOutputs t)]
      in case ghgCalcEmissionLoop aRegionName aInput aPeriod t 0 (ghg t) of
           Inl e \<Rightarrow> Inl e
         | Inr evs2 \<Rightarrow> Inr (evs1 @ evs2))"

text \<open>
  \<^verbatim>\<open>production\<close>. The \<^verbatim>\<open>assert\<close> on the demand stops the call when it fails (every
  real is a valid number, so only the sign is tested). The test before
  \<^verbatim>\<open>addToDemand\<close> is the one of the source, term by term.
\<close>

definition production :: "string \<Rightarrow> string \<Rightarrow> real \<Rightarrow> GDP \<Rightarrow> int \<Rightarrow> technology
    \<Rightarrow> error + technology \<times> event list" where
  "production aRegionName aSectorName aDemand aGDP aPeriod t =
     (if \<not> aDemand \<ge> 0 then Inl AssertionFailed
      else
        (let primaryOutput = share t * aDemand;
             evs1 = (if primaryOutput < 0 then
                       [Log ERROR [Str ''Primary output value less than zero for technology '',
                                   Str (mName t)]]
                     else [])
         in case getEfficiency aPeriod t of
              Inl e \<Rightarrow> Inl e
            | Inr eff \<Rightarrow>
                (let t1 = t\<lparr>input := primaryOutput / eff\<rparr>
                 in case mTechData t1 of
                      None \<Rightarrow> Inl NullTechData
                    | Some d \<Rightarrow>
                        (let evs2 =
                               (if (fuelname d \<noteq> ''renewable'') \<and>
                                   ((fuelname d \<noteq> ''none'') \<or> fuelname d = [])
                                then [AddToDemand (fuelname d) aRegionName (input t1) aPeriod]
                                else [])
                         in case calcEmissionsAndOutputs aRegionName (input t1) primaryOutput
                                   aGDP aPeriod t1 of
                              Inl e \<Rightarrow> Inl e
                            | Inr evs3 \<Rightarrow> Inr (t1, evs1 @ evs2 @ evs3)))))"

subsection \<open>Emission maps\<close>

text \<open>One pass of the loop of \<^verbatim>\<open>calcEmission\<close>: four entries of \<^verbatim>\<open>emissmap\<close>, one of \<^verbatim>\<open>emfuelmap\<close>.\<close>

definition calcEmissionStep :: "int \<Rightarrow> AGHG \<Rightarrow> technology \<Rightarrow> error + technology" where
  "calcEmissionStep aPeriod g t =
     (case mTechData t of
        None \<Rightarrow> Inl NullTechData
      | Some d \<Rightarrow>
          (let t1 = t\<lparr>emissmap := (emissmap t)(getName g \<mapsto> getEmission g aPeriod)\<rparr>;
               t2 = t1\<lparr>emissmap := (emissmap t1)(getName g @ fuelname d \<mapsto> getEmission g aPeriod)\<rparr>;
               t3 = t2\<lparr>emissmap := (emissmap t2)(getName g @ ''sequestGeologic''
                                                    \<mapsto> getSequestAmountGeologic g)\<rparr>;
               t4 = t3\<lparr>emissmap := (emissmap t3)(getName g @ ''sequestNonEngy''
                                                    \<mapsto> getSequestAmountNonEngy g)\<rparr>
           in Inr (t4\<lparr>emfuelmap := (emfuelmap t4)(fuelname d \<mapsto> getEmissFuel g aPeriod)\<rparr>)))"

fun calcEmissionLoop :: "int \<Rightarrow> AGHG list \<Rightarrow> technology \<Rightarrow> error + technology" where
  "calcEmissionLoop aPeriod [] t = Inr t"
| "calcEmissionLoop aPeriod (g # gs) t =
     (case calcEmissionStep aPeriod g t of
        Inl e \<Rightarrow> Inl e
      | Inr t' \<Rightarrow> calcEmissionLoop aPeriod gs t')"

definition calcEmission :: "string \<Rightarrow> int \<Rightarrow> technology \<Rightarrow> error + technology" where
  "calcEmission aGoodName aPeriod t =
     calcEmissionLoop aPeriod (ghg t) (t\<lparr>emissmap := Map.empty, emfuelmap := Map.empty\<rparr>)"

subsection \<open>Completing the initialization\<close>

definition hasNoInputOrOutput :: "environment \<Rightarrow> technology \<Rightarrow> bool" where
  "hasNoInputOrOutput env t = isEqual env (fixedOutput t) 0"

text \<open>
  Modelled from the spec: the class \<^verbatim>\<open>CO2Emissions\<close> is declared outside
  \<^verbatim>\<open>technology.cpp\<close>. Its XML name is the gas name \<^verbatim>\<open>CO2\<close>, and a new object
  carries that name; it has computed no emission yet.
\<close>

definition CO2Emissions_getXMLNameStatic :: string where
  "CO2Emissions_getXMLNameStatic = ''CO2''"

definition CO2Emissions :: AGHG where
  "CO2Emissions =
     \<lparr> getName = CO2Emissions_getXMLNameStatic,
       getGHGValue = (\<lambda>aRegionName aFuelName outs eff aPeriod. 0),
       getEmission = (\<lambda>aPeriod. 0),
       getEmissFuel = (\<lambda>aPeriod. 0),
       getSequestAmountGeologic = 0,
       getSequestAmountNonEngy = 0 \<rparr>"

text \<open>
  \<^verbatim>\<open>completeInit\<close>. \<^verbatim>\<open>aDepFinder\<close> says whether a dependency finder was passed;
  \<^verbatim>\<open>aGlobalTechDB\<close> is the lookup of the global technology database when one was
  passed. \<^verbatim>\<open>util::hasValue\<close> tests whether the key is in the map.
\<close>

definition completeInit :: "environment \<Rightarrow> string \<Rightarrow> bool
    \<Rightarrow> (string \<Rightarrow> int \<Rightarrow> ITechnologyInfo option) option \<Rightarrow> technology
    \<Rightarrow> technology \<times> event list" where
  "completeInit env aSectorName aDepFinder aGlobalTechDB t =
     (let evs1 = (if year t = 0 then
                    [Log ERROR [Str ''Technology '', Str (mName t), Str '' in sector '',
                                Str aSectorName, Str '' has an invalid year attribute.'']]
                  else []);
          t1 = (case aGlobalTechDB of
                  None \<Rightarrow> t
                | Some getTechnology \<Rightarrow>
                    (if mGetGlobalTech t
                     then t\<lparr>mTechData := getTechnology (mName t) (year t)\<rparr>
                     else t));
          d0 = (case mTechData t1 of
                  None \<Rightarrow> GenericTechnologyInfo env (mName t1)
                | Some d \<Rightarrow> d);
          d = techDataCompleteInit env d0;
          t2 = t1\<lparr>mTechData := Some d\<rparr>;
          t3 = (if ghgNameMap t2 CO2Emissions_getXMLNameStatic = None then
                  (let t' = t2\<lparr>ghg := ghg t2 @ [CO2Emissions]\<rparr>
                   in t'\<lparr>ghgNameMap := (ghgNameMap t')(CO2Emissions_getXMLNameStatic
                                             \<mapsto> int (length (ghg t')) - 1)\<rparr>)
                else t2);
          t4 = t3\<lparr>mOutputs := PrimaryOutput aSectorName # mOutputs t3\<rparr>;
          evs2 = map (\<lambda>i. OutputCompleteInit i aSectorName (\<not> hasNoInputOrOutput env t4))
                   [0 ..< length (mOutputs t4)];
          evs3 = (if aDepFinder then
                    (if \<not> hasNoInputOrOutput env t4
                     then [AddDependency aSectorName (fuelname d)]
                     else [])
                  else []);
          t5 = (if fixedOutput t4 \<ge> 0 then t4\<lparr>fixedOutputVal := fixedOutput t4\<rparr> else t4)
      in (t5, evs1 @ evs2 @ evs3))"

text \<open>
  The names of the gases in the order of the vector \<^verbatim>\<open>ghg\<close>, and the invariant
  that ties \<^verbatim>\<open>ghgNameMap\<close> to it: no two gases share a name, and the map sends
  each name to the position of its gas and holds no other key. The constructor
  establishes it (both are empty).
\<close>

definition ghgNames :: "technology \<Rightarrow> string list" where
  "ghgNames t = map getName (ghg t)"

definition ghgNamesIndexed :: "technology \<Rightarrow> bool" where
  "ghgNamesIndexed t \<longleftrightarrow>
     distinct (ghgNames t) \<and>
     ghgNameMap t = map_of (zip (ghgNames t) (map int [0 ..< length (ghg t)]))"

subsection \<open>An environment and objects for evaluating the functions\<close>

definition example_info :: ITechnologyInfo where
  "example_info =
     \<lparr> fuelname = ''coal'', efficiency = 1 / 2, efficiencyPenalty = 0,
       nonenergycost = 2, neCostPenalty = 0, fMultiplier = 1, fuelprefElasticity = 0 \<rparr>"

definition example_environment :: environment where
  "example_environment =
     \<lparr> getPrice = (\<lambda>aFuelName aRegionName per. if aFuelName = ''coal'' then 10 else - 1),
       NO_MARKET_PRICE = - 1,
       getLargeNumber = 1000000,
       getSmallNumber = 1 / 1000000,
       isEqual = (\<lambda>a b. \<bar>a - b\<bar> < 1 / 10000000000),
       getper_to_yr = (\<lambda>per. 1975 + 15 * per),
       debugChecking = True,
       GenericTechnologyInfo = (\<lambda>aName. example_info\<lparr>fuelname := []\<rparr>),
       techDataCompleteInit = (\<lambda>d. d) \<rparr>"

definition example_technology :: technology where
  "example_technology = (new_technology ''coal plant'' 1990)\<lparr>mTechData := Some example_info\<rparr>"

text \<open>A technology calibrated to an output of 30.\<close>

definition example_calibrated :: technology where
  "example_calibrated =
     example_technology\<lparr>mCalValue := Some \<lparr> getCalInput = (\<lambda>eff. 30 / eff),
                                              getCalOutput = (\<lambda>eff. 30) \<rparr>\<rparr>"

definition example_unit_gdp :: GDP where
  "example_unit_gdp aPeriod = 1"

definition example_no_fuel :: technology where
  "example_no_fuel =
     example_technology\<lparr>share := 1 / 2, mTechData := Some (example_info\<lparr>fuelname := []\<rparr>)\<rparr>"



text \<open>A second gas, and a technology with two gases.\<close>

definition example_CH4 :: AGHG where
  "example_CH4 =
     \<lparr> getName = ''CH4'',
       getGHGValue = (\<lambda>aRegionName aFuelName outs eff aPeriod. 0),
       getEmission = (\<lambda>aPeriod. 3),
       getEmissFuel = (\<lambda>aPeriod. 5),
       getSequestAmountGeologic = 0,
       getSequestAmountNonEngy = 0 \<rparr>"

definition example_two_gases :: technology where
  "example_two_gases =
     example_technology\<lparr>ghg := [example_CH4, CO2Emissions\<lparr>getEmissFuel := (\<lambda>aPeriod. 7)\<rparr>],
                          ghgNameMap := [''CO2'' \<mapsto> 1, ''CH4'' \<mapsto> 0]\<rparr>"

text \<open>A technology as parsed with one gas and one secondary output.\<close>

definition example_one_gas :: technology where
  "example_one_gas =
     (new_technology ''gas plant'' 1990)
       \<lparr>ghg := [example_CH4], ghgNameMap := [''CH4'' \<mapsto> 0],
        mOutputs := [SecondaryOutput ''heat'' (\<lambda>aRegionName aPeriod. 1)]\<rparr>"

text \<open>
  A technology of 1990 with a fixed output of 50, scaled down to a working
  value of 40, and an efficiency of 0.25.
\<close>

definition example_fixed :: technology where
  "example_fixed =
     example_technology\<lparr>fixedOutput := 50, fixedOutputVal := 40,
                          mTechData := Some (example_info\<lparr>efficiency := 1 / 4\<rparr>)\<rparr>"


section \<open>Properties\<close>

text \<open>
  C6. Whatever the share was before, \<^verbatim>\<open>normShare\<close> with a sum of 0 returns the
  technology with a share of exactly 0, and no quotient by that sum is
  computed; with a sum other than 0 the share is divided by the sum. Either
  way the call returns with a real share, never with an infinity or a NaN,
  and nothing else in the technology changes.
\<close>

theorem normShare_zero_or_quotient:
  "normShare 0 t = Inr (t\<lparr>share := 0\<rparr>) \<and>
   (aSum \<noteq> 0 \<longrightarrow> normShare aSum t = Inr (t\<lparr>share := share t / aSum\<rparr>)) \<and>
   (\<exists>t'. normShare aSum t = Inr t' \<and> share t' = (if aSum = 0 then 0 else share t / aSum))"
  by (simp add: normShare_def fdiv_def)

theorem normShare_zero_or_quotient_witness:
  "normShare 0 ((new_technology ''coal'' 1990)\<lparr>share := 7\<rparr>)
     = Inr ((new_technology ''coal'' 1990)\<lparr>share := 0\<rparr>) \<and>
   (4::real) \<noteq> 0 \<and>
   normShare 4 ((new_technology ''coal'' 1990)\<lparr>share := 2\<rparr>)
     = Inr ((new_technology ''coal'' 1990)\<lparr>share := 1 / 2\<rparr>)"
  using normShare_zero_or_quotient
    [of "(new_technology ''coal'' 1990)\<lparr>share := 7\<rparr>" 4]
    normShare_zero_or_quotient
    [of "(new_technology ''coal'' 1990)\<lparr>share := 2\<rparr>" 4]
  by (simp add: new_technology_def)

text \<open>
  C9. When \<^verbatim>\<open>adjShares\<close> is called with a subsector fixed output that is not
  positive, the technology is returned as it was: the share, the working fixed
  output and every other member keep their values, whatever the state and the
  other arguments.
\<close>

theorem adjShares_no_fixed_output_unchanged:
  "subsecfixedOutput \<le> 0 \<Longrightarrow> adjShares subsecdmd subsecfixedOutput varShareTot per t = Inr t"
  by (simp add: adjShares_def)

theorem adjShares_no_fixed_output_unchanged_witness:
  "(0::real) \<le> 0 \<and>
   adjShares 100 0 1 2 ((new_technology ''coal'' 1990)\<lparr>share := 1 / 4, fixedOutputVal := 40\<rparr>)
     = Inr ((new_technology ''coal'' 1990)\<lparr>share := 1 / 4, fixedOutputVal := 40\<rparr>)"
  using adjShares_no_fixed_output_unchanged
    [of 0 100 1 2 "(new_technology ''coal'' 1990)\<lparr>share := 1 / 4, fixedOutputVal := 40\<rparr>"]
  by simp

subsection \<open>The two branches of adjShares in closed form\<close>

lemma adjShares_fixed:
  assumes "0 < subsecfixedOutput" and "0 \<le> fixedOutputVal t"
  shows "adjShares subsecdmd subsecfixedOutput varShareTot per t
     = Inr (if 0 < subsecdmd
            then (if subsecdmd < fixedOutputVal t
                  then t\<lparr>share := fixedOutputVal t / subsecdmd,
                         fixedOutputVal := subsecfixedOutput\<rparr>
                  else t\<lparr>share := fixedOutputVal t / subsecdmd\<rparr>)
            else t\<lparr>share := 0\<rparr>)"
  using assms by (simp add: adjShares_def fdiv_def Let_def)

lemma adjShares_variable:
  assumes "0 < subsecfixedOutput" and "fixedOutputVal t < 0"
  shows "adjShares subsecdmd subsecfixedOutput varShareTot per t
     = (if 0 < subsecdmd
        then (if varShareTot = 0 then Inl NonFinite
              else Inr (t\<lparr>share := share t * (max (subsecdmd - subsecfixedOutput) 0 / subsecdmd)
                                       / varShareTot\<rparr>))
        else Inr (t\<lparr>share := 0\<rparr>))"
  using assms by (simp add: adjShares_def fdiv_def Let_def max_def)

text \<open>
  C1. The subsector has positive fixed output, and its demand is not negative
  (\<^verbatim>\<open>production\<close> asserts as much of the same demand). \<^verbatim>\<open>adjShares\<close> then sets the
  share of a technology with fixed output (working fixed output at least 0) to
  the working fixed output divided by the demand, and to 0, without dividing,
  when the demand is 0. It sets the share of a variable technology to
  \<open>share * (max (demand - fixed output) 0 / demand) / variable share total\<close>,
  and to 0, without dividing, when the demand is 0. The quotient by the
  variable share total is a real number when that total is not 0; with a
  total of 0 and a positive demand the source stores an infinity or a NaN.
  With a working fixed output of 40, a demand of 100, a subsector fixed output
  of 40 and a variable share total of 1, the fixed share becomes 0.4, and a
  variable share of 1 becomes 0.6.
\<close>

theorem adjShares_fixed_and_variable_shares:
  assumes "0 < subsecfixedOutput" and "0 \<le> subsecdmd"
  shows
    "(0 \<le> fixedOutputVal t \<longrightarrow>
        (\<exists>t'. adjShares subsecdmd subsecfixedOutput varShareTot per t = Inr t' \<and>
              share t' = (if subsecdmd = 0 then 0 else fixedOutputVal t / subsecdmd))) \<and>
     (fixedOutputVal t < 0 \<and> subsecdmd = 0 \<longrightarrow>
        adjShares subsecdmd subsecfixedOutput varShareTot per t = Inr (t\<lparr>share := 0\<rparr>)) \<and>
     (fixedOutputVal t < 0 \<and> subsecdmd \<noteq> 0 \<and> varShareTot \<noteq> 0 \<longrightarrow>
        adjShares subsecdmd subsecfixedOutput varShareTot per t
          = Inr (t\<lparr>share := share t * (max (subsecdmd - subsecfixedOutput) 0 / subsecdmd)
                                   / varShareTot\<rparr>)) \<and>
     (fixedOutputVal t < 0 \<and> subsecdmd \<noteq> 0 \<and> varShareTot = 0 \<longrightarrow>
        adjShares subsecdmd subsecfixedOutput varShareTot per t = Inl NonFinite) \<and>
     (fixedOutputVal t = 40 \<longrightarrow>
        (\<exists>t'. adjShares 100 40 1 per t = Inr t' \<and> share t' = 2 / 5)) \<and>
     (fixedOutputVal t < 0 \<and> share t = 1 \<longrightarrow>
        adjShares 100 40 1 per t = Inr (t\<lparr>share := 3 / 5\<rparr>))"
proof (intro conjI impI)
  assume "0 \<le> fixedOutputVal t"
  then show "\<exists>t'. adjShares subsecdmd subsecfixedOutput varShareTot per t = Inr t' \<and>
                 share t' = (if subsecdmd = 0 then 0 else fixedOutputVal t / subsecdmd)"
    using assms by (simp add: adjShares_fixed)
next
  assume "fixedOutputVal t < 0 \<and> subsecdmd = 0"
  then show "adjShares subsecdmd subsecfixedOutput varShareTot per t = Inr (t\<lparr>share := 0\<rparr>)"
    using assms by (simp add: adjShares_variable)
next
  assume "fixedOutputVal t < 0 \<and> subsecdmd \<noteq> 0 \<and> varShareTot \<noteq> 0"
  then show "adjShares subsecdmd subsecfixedOutput varShareTot per t
               = Inr (t\<lparr>share := share t * (max (subsecdmd - subsecfixedOutput) 0 / subsecdmd)
                                        / varShareTot\<rparr>)"
    using assms by (simp add: adjShares_variable)
next
  assume "fixedOutputVal t < 0 \<and> subsecdmd \<noteq> 0 \<and> varShareTot = 0"
  then show "adjShares subsecdmd subsecfixedOutput varShareTot per t = Inl NonFinite"
    using assms by (simp add: adjShares_variable)
next
  assume "fixedOutputVal t = 40"
  then show "\<exists>t'. adjShares 100 40 1 per t = Inr t' \<and> share t' = 2 / 5"
    by (simp add: adjShares_fixed)
next
  assume "fixedOutputVal t < 0 \<and> share t = 1"
  then show "adjShares 100 40 1 per t = Inr (t\<lparr>share := 3 / 5\<rparr>)"
    by (simp add: adjShares_variable)
qed

theorem adjShares_fixed_and_variable_shares_witness:
  "(0::real) < 40 \<and> (0::real) \<le> 100 \<and> (0::real) \<le> 0 \<and>
   0 \<le> fixedOutputVal (example_technology\<lparr>fixedOutputVal := 40\<rparr>) \<and>
   (\<exists>t'. adjShares 100 40 1 1 (example_technology\<lparr>fixedOutputVal := 40\<rparr>) = Inr t' \<and>
         share t' = 2 / 5) \<and>
   (\<exists>t'. adjShares 0 40 1 1 (example_technology\<lparr>fixedOutputVal := 40\<rparr>) = Inr t' \<and>
         share t' = 0) \<and>
   fixedOutputVal (example_technology\<lparr>share := 1\<rparr>) < 0 \<and>
   share (example_technology\<lparr>share := 1\<rparr>) = 1 \<and>
   adjShares 100 40 1 1 (example_technology\<lparr>share := 1\<rparr>)
     = Inr (example_technology\<lparr>share := 3 / 5\<rparr>) \<and>
   adjShares 0 40 1 1 (example_technology\<lparr>share := 1\<rparr>)
     = Inr (example_technology\<lparr>share := 0\<rparr>) \<and>
   adjShares 100 40 0 1 (example_technology\<lparr>share := 1\<rparr>) = Inl NonFinite"
proof -
  have p: "(0::real) < 40" "(0::real) \<le> 100" "(0::real) \<le> 0"
    by simp_all
  have f: "fixedOutputVal (example_technology\<lparr>share := 1\<rparr>) < 0"
    by (simp add: example_technology_def new_technology_def getFixedOutputDefault_def)
  note a = adjShares_fixed_and_variable_shares
             [OF p(1) p(2), of "example_technology\<lparr>fixedOutputVal := 40\<rparr>" 1 1]
  note b = adjShares_fixed_and_variable_shares
             [OF p(1) p(3), of "example_technology\<lparr>fixedOutputVal := 40\<rparr>" 1 1]
  note c = adjShares_fixed_and_variable_shares
             [OF p(1) p(2), of "example_technology\<lparr>share := 1\<rparr>" 1 1]
  note d = adjShares_fixed_and_variable_shares
             [OF p(1) p(3), of "example_technology\<lparr>share := 1\<rparr>" 1 1]
  note e = adjShares_fixed_and_variable_shares
             [OF p(1) p(2), of "example_technology\<lparr>share := 1\<rparr>" 0 1]
  have "\<exists>t'. adjShares 100 40 1 1 (example_technology\<lparr>fixedOutputVal := 40\<rparr>) = Inr t' \<and>
          share t' = 2 / 5"
    using a by simp
  moreover have "\<exists>t'. adjShares 0 40 1 1 (example_technology\<lparr>fixedOutputVal := 40\<rparr>) = Inr t' \<and>
          share t' = 0"
    using b by simp
  moreover have "adjShares 100 40 1 1 (example_technology\<lparr>share := 1\<rparr>)
          = Inr (example_technology\<lparr>share := 3 / 5\<rparr>)"
    using c f by simp
  moreover have "adjShares 0 40 1 1 (example_technology\<lparr>share := 1\<rparr>)
          = Inr (example_technology\<lparr>share := 0\<rparr>)"
    using d f by simp
  moreover have "adjShares 100 40 0 1 (example_technology\<lparr>share := 1\<rparr>) = Inl NonFinite"
    using e f by simp
  ultimately show ?thesis
    using f by simp
qed

subsection \<open>The fixed output through completeInit\<close>

lemma completeInit_fixedOutputVal:
  "fixedOutputVal (fst (completeInit env aSectorName aDepFinder aGlobalTechDB t))
     = (if fixedOutput t \<ge> 0 then fixedOutput t else fixedOutputVal t)"
  "year (fst (completeInit env aSectorName aDepFinder aGlobalTechDB t)) = year t"
  by (auto simp add: completeInit_def Let_def split: option.split)

text \<open>
  C7. \<^verbatim>\<open>getFixedInput\<close> returns 0 when the working fixed output is the default
  \<open>-1\<close> or the period is not the one of the technology's year, and otherwise the
  working fixed output divided by the effective efficiency. With a fixed
  output of 50 (copied into the working value by \<^verbatim>\<open>resetFixedOutput\<close>, and by
  \<^verbatim>\<open>completeInit\<close>) and an effective efficiency of 0.25 it returns 200 in the
  period of the technology's year and 0 in every other period.
\<close>

theorem getFixedInput_vintage_year_only:
  "(fixedOutputVal t = getFixedOutputDefault \<or> year t \<noteq> getper_to_yr env aPeriod
      \<longrightarrow> getFixedInput env aPeriod t = Inr 0) \<and>
   (mTechData t = Some d \<and> fixedOutputVal t \<noteq> getFixedOutputDefault
      \<and> year t = getper_to_yr env aPeriod
      \<longrightarrow> getFixedInput env aPeriod t
            = Inr (fixedOutputVal t / (efficiency d * (1 - efficiencyPenalty d)))) \<and>
   (mTechData t = Some d \<and> fixedOutput t = 50
      \<and> efficiency d * (1 - efficiencyPenalty d) = 1 / 4
      \<longrightarrow> getFixedInput env aPeriod (resetFixedOutput per t)
            = Inr (if year t = getper_to_yr env aPeriod then 200 else 0)) \<and>
   (mTechData (fst (completeInit env aSectorName aDepFinder aGlobalTechDB t)) = Some d'
      \<and> fixedOutput t = 50 \<and> efficiency d' * (1 - efficiencyPenalty d') = 1 / 4
      \<longrightarrow> getFixedInput env aPeriod (fst (completeInit env aSectorName aDepFinder aGlobalTechDB t))
            = Inr (if year t = getper_to_yr env aPeriod then 200 else 0))"
proof (intro conjI impI)
  assume "fixedOutputVal t = getFixedOutputDefault \<or> year t \<noteq> getper_to_yr env aPeriod"
  then show "getFixedInput env aPeriod t = Inr 0"
    by (auto simp add: getFixedInput_def)
next
  assume "mTechData t = Some d \<and> fixedOutputVal t \<noteq> getFixedOutputDefault
            \<and> year t = getper_to_yr env aPeriod"
  then show "getFixedInput env aPeriod t
               = Inr (fixedOutputVal t / (efficiency d * (1 - efficiencyPenalty d)))"
    by (simp add: getFixedInput_def getEfficiency_def)
next
  assume a: "mTechData t = Some d \<and> fixedOutput t = 50
               \<and> efficiency d * (1 - efficiencyPenalty d) = 1 / 4"
  then have "resetFixedOutput per t = t\<lparr>fixedOutputVal := 50\<rparr>"
    by (simp add: resetFixedOutput_def)
  moreover have "getEfficiency aPeriod (t\<lparr>fixedOutputVal := 50\<rparr>) = Inr (1 / 4)"
    using a by (simp add: getEfficiency_def)
  ultimately show "getFixedInput env aPeriod (resetFixedOutput per t)
                     = Inr (if year t = getper_to_yr env aPeriod then 200 else 0)"
    by (simp add: getFixedInput_def getFixedOutputDefault_def)
next
  let ?t' = "fst (completeInit env aSectorName aDepFinder aGlobalTechDB t)"
  assume a: "mTechData ?t' = Some d' \<and> fixedOutput t = 50
               \<and> efficiency d' * (1 - efficiencyPenalty d') = 1 / 4"
  then have v: "fixedOutputVal ?t' = 50" and y: "year ?t' = year t"
    by (simp_all add: completeInit_fixedOutputVal)
  have "getEfficiency aPeriod ?t' = Inr (1 / 4)"
    using a by (simp add: getEfficiency_def)
  then show "getFixedInput env aPeriod ?t'
               = Inr (if year t = getper_to_yr env aPeriod then 200 else 0)"
    by (simp add: getFixedInput_def getFixedOutputDefault_def v y)
qed

theorem getFixedInput_vintage_year_only_witness:
  "year example_fixed \<noteq> getper_to_yr example_environment 2 \<and>
   getFixedInput example_environment 2 example_fixed = Inr 0 \<and>
   fixedOutputVal example_technology = getFixedOutputDefault \<and>
   getFixedInput example_environment 1 example_technology = Inr 0 \<and>
   mTechData example_fixed = Some (example_info\<lparr>efficiency := 1 / 4\<rparr>) \<and>
   fixedOutputVal example_fixed \<noteq> getFixedOutputDefault \<and>
   year example_fixed = getper_to_yr example_environment 1 \<and>
   getFixedInput example_environment 1 example_fixed = Inr 160 \<and>
   fixedOutput example_fixed = 50 \<and>
   efficiency (example_info\<lparr>efficiency := 1 / 4\<rparr>)
     * (1 - efficiencyPenalty (example_info\<lparr>efficiency := 1 / 4\<rparr>)) = 1 / 4 \<and>
   getFixedInput example_environment 1 (resetFixedOutput 1 example_fixed) = Inr 200 \<and>
   getFixedInput example_environment 2 (resetFixedOutput 2 example_fixed) = Inr 0 \<and>
   mTechData (fst (completeInit example_environment ''electricity'' True None example_fixed))
     = Some (example_info\<lparr>efficiency := 1 / 4\<rparr>) \<and>
   getFixedInput example_environment 1
     (fst (completeInit example_environment ''electricity'' True None example_fixed)) = Inr 200 \<and>
   getFixedInput example_environment 2
     (fst (completeInit example_environment ''electricity'' True None example_fixed)) = Inr 0"
proof -
  have f: "year example_fixed = 1990" "fixedOutput example_fixed = 50"
      "fixedOutputVal example_fixed = 40"
      "mTechData example_fixed = Some (example_info\<lparr>efficiency := 1 / 4\<rparr>)"
    by (simp_all add: example_fixed_def example_technology_def new_technology_def)
  have e: "getper_to_yr example_environment 1 = 1990" "getper_to_yr example_environment 2 = 2005"
    by (simp_all add: example_environment_def)
  have p: "efficiencyPenalty example_info = 0"
    by (simp add: example_info_def)
  have u: "fixedOutputVal example_technology = getFixedOutputDefault"
    by (simp add: example_technology_def new_technology_def)
  have c: "mTechData (fst (completeInit example_environment ''electricity'' True None
                             example_fixed)) = Some (example_info\<lparr>efficiency := 1 / 4\<rparr>)"
    by (simp add: completeInit_def Let_def f example_environment_def)
  note i2 = getFixedInput_vintage_year_only
              [where t = example_fixed and env = example_environment and aPeriod = 2
                 and d = "example_info\<lparr>efficiency := 1 / 4\<rparr>" and per = 2
                 and d' = "example_info\<lparr>efficiency := 1 / 4\<rparr>"
                 and aSectorName = "''electricity''" and aDepFinder = True
                 and aGlobalTechDB = None]
  note i1 = getFixedInput_vintage_year_only
              [where t = example_fixed and env = example_environment and aPeriod = 1
                 and d = "example_info\<lparr>efficiency := 1 / 4\<rparr>" and per = 1
                 and d' = "example_info\<lparr>efficiency := 1 / 4\<rparr>"
                 and aSectorName = "''electricity''" and aDepFinder = True
                 and aGlobalTechDB = None]
  note i0 = getFixedInput_vintage_year_only
              [where t = example_technology and env = example_environment and aPeriod = 1
                 and d = example_info and per = 1 and d' = example_info
                 and aSectorName = "''electricity''" and aDepFinder = True
                 and aGlobalTechDB = None]
  have "getFixedInput example_environment 2 example_fixed = Inr 0"
    using i2 by (simp add: f e)
  moreover have "getFixedInput example_environment 1 example_technology = Inr 0"
    using i0 u by simp
  moreover have "getFixedInput example_environment 1 example_fixed = Inr 160"
    using i1 by (simp add: f e p getFixedOutputDefault_def)
  moreover have "getFixedInput example_environment 1 (resetFixedOutput 1 example_fixed) = Inr 200"
    using i1 by (simp add: f e p)
  moreover have "getFixedInput example_environment 2 (resetFixedOutput 2 example_fixed) = Inr 0"
    using i2 by (simp add: f e p)
  moreover have "getFixedInput example_environment 1
     (fst (completeInit example_environment ''electricity'' True None example_fixed)) = Inr 200"
    using i1 by (simp add: f e p c)
  moreover have "getFixedInput example_environment 2
     (fst (completeInit example_environment ''electricity'' True None example_fixed)) = Inr 0"
    using i2 by (simp add: f e p c)
  ultimately show ?thesis
    using f e p u c by (simp add: getFixedOutputDefault_def)
qed

text \<open>
  C5. Let \<open>calOutput\<close> be the calibration output of the period. In
  \<^verbatim>\<open>adjustForCalibration\<close> a share weight of 0 with a positive \<open>calOutput\<close> is first
  set to 1; then, when \<open>technologyDemand = share * subSectorDemand\<close> is positive,
  the weight is multiplied by \<open>calOutput / technologyDemand\<close>, and when
  \<open>technologyDemand\<close> is 0 this step leaves the (possibly bumped) weight as it
  is; last, a weight below 0 is reported in the log and set to 1. Nothing but
  the share weight changes.
\<close>

theorem adjustForCalibration_share_weight:
  assumes "getCalibrationOutput env period t = Inr calOutput"
  shows "\<exists>t' evs.
     adjustForCalibration env subSectorDemand regionName period t = Inr (t', evs) \<and>
     (let bumped = (if shrwts t = 0 \<and> calOutput > 0 then 1 else shrwts t);
          technologyDemand = share t * subSectorDemand;
          scaled = (if technologyDemand > 0 then bumped * (calOutput / technologyDemand)
                    else bumped)
      in t' = t\<lparr>shrwts := (if scaled < 0 then 1 else scaled)\<rparr> \<and>
         shrwts t' = (if scaled < 0 then 1 else scaled) \<and>
         (technologyDemand = 0 \<longrightarrow> shrwts t' = (if bumped < 0 then 1 else bumped)) \<and>
         (scaled < 0 \<longrightarrow>
            Log WARNING [Str ''Share weight is less than zero in technology '', Str (mName t)]
              \<in> set evs \<and>
            Log WARNING [Str ''Share weight was '', Num scaled, Str ''(reset to 1)'']
              \<in> set evs))"
  using assms
  by (simp add: adjustForCalibration_def Let_def)

theorem adjustForCalibration_share_weight_witness:
  "getCalibrationOutput example_environment 1 (example_calibrated\<lparr>shrwts := 0\<rparr>) = Inr 30 \<and>
   (\<exists>t' evs. adjustForCalibration example_environment 100 ''USA'' 1
                (example_calibrated\<lparr>shrwts := 0\<rparr>) = Inr (t', evs) \<and> shrwts t' = 1) \<and>
   getCalibrationOutput example_environment 1
     (example_calibrated\<lparr>shrwts := 2, share := 1 / 2\<rparr>) = Inr 30 \<and>
   (\<exists>t' evs. adjustForCalibration example_environment 100 ''USA'' 1
                (example_calibrated\<lparr>shrwts := 2, share := 1 / 2\<rparr>) = Inr (t', evs)
              \<and> shrwts t' = 6 / 5) \<and>
   getCalibrationOutput example_environment 1 (example_calibrated\<lparr>shrwts := - 2\<rparr>) = Inr 30 \<and>
   (\<exists>t' evs. adjustForCalibration example_environment 100 ''USA'' 1
                (example_calibrated\<lparr>shrwts := - 2\<rparr>) = Inr (t', evs) \<and> shrwts t' = 1 \<and>
              Log WARNING [Str ''Share weight was '', Num (- 2), Str ''(reset to 1)'']
                \<in> set evs)"
proof -
  have h0: "getCalibrationOutput example_environment 1 (example_calibrated\<lparr>shrwts := 0\<rparr>)
              = Inr 30"
    by (simp add: getCalibrationOutput_def getEfficiency_def example_calibrated_def
          example_technology_def example_environment_def new_technology_def)
  have h1: "getCalibrationOutput example_environment 1
              (example_calibrated\<lparr>shrwts := 2, share := 1 / 2\<rparr>) = Inr 30"
    by (simp add: getCalibrationOutput_def getEfficiency_def example_calibrated_def
          example_technology_def example_environment_def new_technology_def)
  have h2: "getCalibrationOutput example_environment 1 (example_calibrated\<lparr>shrwts := - 2\<rparr>)
              = Inr 30"
    by (simp add: getCalibrationOutput_def getEfficiency_def example_calibrated_def
          example_technology_def example_environment_def new_technology_def)
  have s: "share example_calibrated = 0"
    by (simp add: example_calibrated_def example_technology_def new_technology_def)
  show ?thesis
    using h0 h1 h2
      adjustForCalibration_share_weight [OF h0, of 100 "''USA''"]
      adjustForCalibration_share_weight [OF h1, of 100 "''USA''"]
      adjustForCalibration_share_weight [OF h2, of 100 "''USA''"]
    by (auto simp add: Let_def s)
qed

subsection \<open>The loops of the secondary value in closed form\<close>

lemma ghgValueLoop_total:
  "mTechData t = Some d \<Longrightarrow>
   ghgValueLoop aRegionName aPeriod t gs totalValue
     = Inr (totalValue -
            sum_list (map (\<lambda>g. getGHGValue g aRegionName (fuelname d) (mOutputs t)
                                   (efficiency d * (1 - efficiencyPenalty d)) aPeriod) gs))"
  by (induction gs arbitrary: totalValue) (simp_all add: getEfficiency_def)

lemma outputValueLoop_total:
  "outputValueLoop aRegionName aPeriod outs totalValue
     = totalValue + sum_list (map (\<lambda>out. getValue out aRegionName aPeriod) outs)"
  by (induction outs arbitrary: totalValue) simp_all

lemma calcSecondaryValue_total:
  "mTechData t = Some d \<Longrightarrow>
   calcSecondaryValue aRegionName aPeriod t
     = Inr (sum_list (map (\<lambda>out. getValue out aRegionName aPeriod) (mOutputs t))
            - sum_list (map (\<lambda>g. getGHGValue g aRegionName (fuelname d) (mOutputs t)
                                     (efficiency d * (1 - efficiencyPenalty d)) aPeriod) (ghg t)))"
  by (simp add: calcSecondaryValue_def ghgValueLoop_total outputValueLoop_total)

lemma calcCost_result:
  assumes "mTechData t = Some d"
    and "calcSecondaryValue regionName per t = Inr sv"
  shows "calcCost env regionName sectorName per t
     = Inr (t\<lparr>fuelcost := fst (fuelprice env (fuelname d) (mName t) sectorName regionName per)
                            * fMultiplier d / (efficiency d * (1 - efficiencyPenalty d)),
               techcost :=
                 max ((fst (fuelprice env (fuelname d) (mName t) sectorName regionName per)
                         * fMultiplier d / (efficiency d * (1 - efficiencyPenalty d))
                       + nonenergycost d * (1 + neCostPenalty d)) * pMultiplier t - sv)
                     (getSmallNumber env)\<rparr>,
            snd (fuelprice env (fuelname d) (mName t) sectorName regionName per))"
proof -
  have sv: "\<And>a b. calcSecondaryValue regionName per (t\<lparr>fuelcost := a, techcost := b\<rparr>) = Inr sv"
    using assms by (simp add: calcSecondaryValue_total)
  show ?thesis
    using assms(1) sv
    by (simp add: calcCost_def getEfficiency_def getNonEnergyCost_def Let_def
          split: prod.split)
qed

text \<open>
  C2. With \<^verbatim>\<open>mTechData\<close> set and a positive \<^verbatim>\<open>util::getSmallNumber()\<close>, \<^verbatim>\<open>calcCost\<close>
  returns, and it leaves
  \<open>fuelcost = price * fMultiplier / (efficiency * (1 - efficiencyPenalty))\<close> and
  \<open>techcost = max ((fuelcost + nonenergycost * (1 + neCostPenalty)) * pMultiplier -
  secondary value) small number\<close>, where the price is the one \<^verbatim>\<open>calcCost\<close> works
  with and the secondary value is the sum of the output values minus the sum
  of the gas values; so the total cost is positive. With a market price of 10
  (not the sentinel), efficiency 0.5, no penalties, fuel multiplier 1,
  non-energy cost 2, price multiplier 1 and a secondary value of 0, the fuel
  cost is 20 and the total cost 22.
\<close>

theorem calcCost_fuel_and_total_cost:
  assumes "mTechData t = Some d" and "0 < getSmallNumber env"
  shows "\<exists>t' evs sv.
     calcCost env regionName sectorName per t = Inr (t', evs) \<and>
     calcSecondaryValue regionName per t = Inr sv \<and>
     sv = sum_list (map (\<lambda>out. getValue out regionName per) (mOutputs t))
          - sum_list (map (\<lambda>g. getGHGValue g regionName (fuelname d) (mOutputs t)
                                   (efficiency d * (1 - efficiencyPenalty d)) per) (ghg t)) \<and>
     fuelcost t' = fst (fuelprice env (fuelname d) (mName t) sectorName regionName per)
                     * fMultiplier d / (efficiency d * (1 - efficiencyPenalty d)) \<and>
     techcost t' = max ((fuelcost t' + nonenergycost d * (1 + neCostPenalty d)) * pMultiplier t
                          - sv)
                       (getSmallNumber env) \<and>
     0 < techcost t' \<and>
     (fuelname d \<noteq> ''none'' \<and> fuelname d \<noteq> [] \<and> fuelname d \<noteq> ''renewable'' \<and>
      getPrice env (fuelname d) regionName per = 10 \<and> NO_MARKET_PRICE env \<noteq> 10 \<and>
      efficiency d = 1 / 2 \<and> efficiencyPenalty d = 0 \<and> fMultiplier d = 1 \<and>
      nonenergycost d = 2 \<and> neCostPenalty d = 0 \<and> pMultiplier t = 1 \<and> sv = 0 \<and>
      getSmallNumber env \<le> 22
      \<longrightarrow> fuelcost t' = 20 \<and> techcost t' = 22)"
proof -
  define sv where
    "sv = sum_list (map (\<lambda>out. getValue out regionName per) (mOutputs t))
          - sum_list (map (\<lambda>g. getGHGValue g regionName (fuelname d) (mOutputs t)
                                   (efficiency d * (1 - efficiencyPenalty d)) per) (ghg t))"
  have sv: "calcSecondaryValue regionName per t = Inr sv"
    using assms(1) by (simp add: calcSecondaryValue_total sv_def)
  define price where "price = fst (fuelprice env (fuelname d) (mName t) sectorName regionName per)"
  define fc where "fc = price * fMultiplier d / (efficiency d * (1 - efficiencyPenalty d))"
  define tc where
    "tc = max ((fc + nonenergycost d * (1 + neCostPenalty d)) * pMultiplier t - sv)
              (getSmallNumber env)"
  define t' where "t' = t\<lparr>fuelcost := fc, techcost := tc\<rparr>"
  have r: "calcCost env regionName sectorName per t
             = Inr (t', snd (fuelprice env (fuelname d) (mName t) sectorName regionName per))"
    unfolding t'_def tc_def fc_def price_def
    by (rule calcCost_result [OF assms(1) sv])
  have f: "fuelcost t' = price * fMultiplier d / (efficiency d * (1 - efficiencyPenalty d))"
    by (simp add: t'_def fc_def)
  have c: "techcost t' = max ((fuelcost t' + nonenergycost d * (1 + neCostPenalty d))
                                * pMultiplier t - sv) (getSmallNumber env)"
    by (simp add: t'_def tc_def)
  have pos: "0 < techcost t'"
    using assms(2) by (simp add: c less_max_iff_disj)
  have ex: "fuelcost t' = 20 \<and> techcost t' = 22"
    if "fuelname d \<noteq> ''none'' \<and> fuelname d \<noteq> [] \<and> fuelname d \<noteq> ''renewable'' \<and>
        getPrice env (fuelname d) regionName per = 10 \<and> NO_MARKET_PRICE env \<noteq> 10 \<and>
        efficiency d = 1 / 2 \<and> efficiencyPenalty d = 0 \<and> fMultiplier d = 1 \<and>
        nonenergycost d = 2 \<and> neCostPenalty d = 0 \<and> pMultiplier t = 1 \<and> sv = 0 \<and>
        getSmallNumber env \<le> 22"
  proof -
    have e: "efficiency d = 1 / 2" "efficiencyPenalty d = 0" "fMultiplier d = 1"
      and n: "nonenergycost d = 2" "neCostPenalty d = 0" "pMultiplier t = 1" "sv = 0"
      and s: "getSmallNumber env \<le> 22"
      using that by blast+
    have "price = 10"
      using that by (simp add: price_def fuelprice_def Let_def)
    then have "fc = 20"
      by (simp add: fc_def e)
    moreover from this have "tc = 22"
      using s by (simp add: tc_def n)
    ultimately show ?thesis
      by (simp add: t'_def)
  qed
  show ?thesis
    using r sv sv_def f c pos ex unfolding price_def by blast
qed


theorem calcCost_fuel_and_total_cost_witness:
  "mTechData example_technology = Some example_info \<and>
   0 < getSmallNumber example_environment \<and>
   (\<exists>t' evs. calcCost example_environment ''USA'' ''electricity'' 1 example_technology
                = Inr (t', evs) \<and> fuelcost t' = 20 \<and> techcost t' = 22 \<and> 0 < techcost t')"
proof -
  have h1: "mTechData example_technology = Some example_info"
    by (simp add: example_technology_def)
  have h2: "0 < getSmallNumber example_environment"
    by (simp add: example_environment_def)
  have sv: "calcSecondaryValue ''USA'' 1 example_technology = Inr 0"
    by (simp add: calcSecondaryValue_def example_technology_def new_technology_def)
  have ex: "fuelname example_info \<noteq> ''none'' \<and> fuelname example_info \<noteq> [] \<and>
      fuelname example_info \<noteq> ''renewable'' \<and>
      getPrice example_environment (fuelname example_info) ''USA'' 1 = 10 \<and>
      NO_MARKET_PRICE example_environment \<noteq> 10 \<and>
      efficiency example_info = 1 / 2 \<and> efficiencyPenalty example_info = 0 \<and>
      fMultiplier example_info = 1 \<and> nonenergycost example_info = 2 \<and>
      neCostPenalty example_info = 0 \<and> pMultiplier example_technology = 1 \<and>
      getSmallNumber example_environment \<le> 22"
    by (simp add: example_info_def example_environment_def example_technology_def
          new_technology_def)
  show ?thesis
    using h1 h2 ex
      calcCost_fuel_and_total_cost [OF h1 h2, of "''USA''" "''electricity''" 1]
    by (auto simp add: sv)
qed

subsection \<open>The events of production in closed form\<close>

lemma ghgCalcEmissionLoop_events:
  "mTechData t = Some d \<Longrightarrow>
   ghgCalcEmissionLoop aRegionName aInput aPeriod t i gs
     = Inr (map (\<lambda>j. GHGCalcEmission j aRegionName (fuelname d) aInput aPeriod)
              [i ..< i + length gs])"
proof (induction gs arbitrary: i)
  case Nil
  then show ?case by simp
next
  case (Cons g gs)
  have "[i ..< i + length (g # gs)] = i # [Suc i ..< i + length (g # gs)]"
    by (rule upt_conv_Cons) simp
  moreover have "i + length (g # gs) = Suc i + length gs"
    by simp
  ultimately have "[i ..< i + length (g # gs)] = i # [Suc i ..< Suc i + length gs]"
    by (simp only:)
  with Cons show ?case by (simp del: upt_Suc)
qed

lemma production_result:
  assumes "mTechData t = Some d" and "0 \<le> aDemand"
  shows "production aRegionName aSectorName aDemand aGDP aPeriod t
     = Inr (t\<lparr>input := share t * aDemand / (efficiency d * (1 - efficiencyPenalty d))\<rparr>,
            (if share t * aDemand < 0 then
               [Log ERROR [Str ''Primary output value less than zero for technology '',
                           Str (mName t)]]
             else []) @
            (if fuelname d \<noteq> ''renewable'' \<and> fuelname d \<noteq> ''none'' then
               [AddToDemand (fuelname d) aRegionName
                  (share t * aDemand / (efficiency d * (1 - efficiencyPenalty d))) aPeriod]
             else []) @
            map (\<lambda>i. SetPhysicalOutput i (share t * aDemand) aRegionName aPeriod)
              [0 ..< length (mOutputs t)] @
            map (\<lambda>j. GHGCalcEmission j aRegionName (fuelname d)
                        (share t * aDemand / (efficiency d * (1 - efficiencyPenalty d))) aPeriod)
              [0 ..< length (ghg t)])"
proof -
  let ?t1 = "t\<lparr>input := share t * aDemand / (efficiency d * (1 - efficiencyPenalty d))\<rparr>"
  have m: "mTechData ?t1 = Some d"
    using assms(1) by simp
  have none: "fuelname d = [] \<Longrightarrow> fuelname d \<noteq> ''none''"
    by simp
  show ?thesis
    using assms none
    by (auto simp add: production_def getEfficiency_def calcEmissionsAndOutputs_def
          ghgCalcEmissionLoop_events [OF m] Let_def)
qed

text \<open>
  C3, on the code. With \<^verbatim>\<open>mTechData\<close> set and a demand that is not negative,
  \<^verbatim>\<open>production\<close> returns with \<open>input = share * demand / effective efficiency\<close>, and
  it adds this input to the demand of the fuel in the marketplace exactly when
  the fuel name is neither \<^verbatim>\<open>renewable\<close> nor \<^verbatim>\<open>none\<close>. For the empty fuel name the
  demand is therefore added: the test of the source,
  \<^verbatim>\<open>fuel != "renewable" && ( fuel != "none" || fuel.empty() )\<close>, holds for it, while
  \<^verbatim>\<open>calcCost\<close> counts the empty name among the fuels without a price.
\<close>

theorem production_empty_fuel_registers_demand:
  assumes "mTechData t = Some d" and "0 \<le> aDemand"
  shows "\<exists>t' evs.
     production aRegionName aSectorName aDemand aGDP aPeriod t = Inr (t', evs) \<and>
     input t' = share t * aDemand / (efficiency d * (1 - efficiencyPenalty d)) \<and>
     (AddToDemand (fuelname d) aRegionName (input t') aPeriod \<in> set evs
        \<longleftrightarrow> fuelname d \<noteq> ''renewable'' \<and> fuelname d \<noteq> ''none'') \<and>
     (fuelname d = [] \<longrightarrow> AddToDemand [] aRegionName (input t') aPeriod \<in> set evs)"
  using assms
  by (auto simp add: production_result)

theorem production_empty_fuel_registers_demand_witness:
  "mTechData example_no_fuel = Some (example_info\<lparr>fuelname := []\<rparr>) \<and> (0::real) \<le> 100 \<and>
   fuelname (example_info\<lparr>fuelname := []\<rparr>) = [] \<and>
   production ''USA'' ''electricity'' 100 example_unit_gdp 1 example_no_fuel
     = Inr (example_no_fuel\<lparr>input := 100\<rparr>, [AddToDemand [] ''USA'' 100 1]) \<and>
   fuelprice example_environment [] ''coal plant'' ''electricity'' ''USA'' 1 = (0, [])"
proof -
  have h1: "mTechData example_no_fuel = Some (example_info\<lparr>fuelname := []\<rparr>)"
    by (simp add: example_no_fuel_def)
  have h2: "(0::real) \<le> 100"
    by simp
  have v: "production ''USA'' ''electricity'' 100 example_unit_gdp 1 example_no_fuel
     = Inr (example_no_fuel\<lparr>input := 100\<rparr>, [AddToDemand [] ''USA'' 100 1])"
    unfolding production_result [OF h1 h2]
    by (simp add: example_no_fuel_def example_info_def example_technology_def
          new_technology_def)
  show ?thesis
    using h1 v production_empty_fuel_registers_demand
            [OF h1 h2, of "''USA''" "''electricity''" example_unit_gdp 1]
    by (simp add: fuelprice_def)
qed

subsection \<open>The share of calcShare in closed form\<close>







subsection \<open>The loop of calcEmission and the map by fuel\<close>

lemma calcEmissionStep_emfuelmap:
  assumes "mTechData t = Some d"
  shows "\<exists>t'. calcEmissionStep aPeriod g t = Inr t' \<and> mTechData t' = Some d \<and>
              emfuelmap t' = (emfuelmap t)(fuelname d \<mapsto> getEmissFuel g aPeriod)"
  using assms by (simp add: calcEmissionStep_def Let_def)

lemma calcEmissionLoop_emfuelmap:
  assumes "mTechData t = Some d"
  shows "\<exists>t'. calcEmissionLoop aPeriod gs t = Inr t' \<and>
              emfuelmap t' = (if gs = [] then emfuelmap t
                              else (emfuelmap t)(fuelname d \<mapsto> getEmissFuel (last gs) aPeriod))"
  using assms
proof (induction gs arbitrary: t)
  case Nil
  then show ?case by simp
next
  case (Cons g gs)
  obtain t1 where s: "calcEmissionStep aPeriod g t = Inr t1" "mTechData t1 = Some d"
      "emfuelmap t1 = (emfuelmap t)(fuelname d \<mapsto> getEmissFuel g aPeriod)"
    using calcEmissionStep_emfuelmap [OF Cons.prems] by blast
  obtain t' where l: "calcEmissionLoop aPeriod gs t1 = Inr t'"
      "emfuelmap t' = (if gs = [] then emfuelmap t1
                       else (emfuelmap t1)(fuelname d \<mapsto> getEmissFuel (last gs) aPeriod))"
    using Cons.IH [OF s(2)] by blast
  have "calcEmissionLoop aPeriod (g # gs) t = Inr t'"
    by (simp add: s(1) l(1))
  moreover have "emfuelmap t' =
      (if g # gs = [] then emfuelmap t
       else (emfuelmap t)(fuelname d \<mapsto> getEmissFuel (last (g # gs)) aPeriod))"
    by (simp add: l(2) s(3))
  ultimately show ?case by blast
qed

subsection \<open>The index of the gases through completeInit\<close>

lemma map_of_snoc:
  assumes "k \<notin> fst ` set xs"
  shows "map_of (xs @ [(k, v)]) = (map_of xs)(k \<mapsto> v)"
proof (rule ext)
  fix x
  have none: "map_of xs k = None"
    using assms by (simp add: map_of_eq_None_iff)
  show "map_of (xs @ [(k, v)]) x = ((map_of xs)(k \<mapsto> v)) x"
  proof (cases "x = k")
    case True
    then show ?thesis
      using none by (simp add: map_add_def)
  next
    case False
    then show ?thesis
      by (simp add: map_add_def split: option.split)
  qed
qed

lemma index_map_snoc:
  assumes "n \<notin> set ns"
  shows "map_of (zip (ns @ [n]) (map int [0 ..< Suc (length ns)]))
           = (map_of (zip ns (map int [0 ..< length ns])))(n \<mapsto> int (length ns))"
proof -
  have z: "zip (ns @ [n]) (map int [0 ..< Suc (length ns)])
          = zip ns (map int [0 ..< length ns]) @ [(n, int (length ns))]"
    by simp
  have "n \<notin> fst ` set (zip ns (map int [0 ..< length ns]))"
    using assms by (auto dest: set_zip_leftD)
  then have "map_of (zip ns (map int [0 ..< length ns]) @ [(n, int (length ns))])
          = (map_of (zip ns (map int [0 ..< length ns])))(n \<mapsto> int (length ns))"
    by (rule map_of_snoc)
  with z show ?thesis
    by (simp only:)
qed

lemma index_map_None:
  "map_of (zip ns (map int [0 ..< length ns])) n = None \<longleftrightarrow> n \<notin> set ns"
  by (rule map_of_zip_is_None) simp


lemma one_per_name:
  "distinct (map f xs) \<Longrightarrow> n \<in> set (map f xs) \<Longrightarrow> length (filter (\<lambda>g. f g = n) xs) = 1"
proof (induction xs)
  case Nil
  then show ?case by simp
next
  case (Cons x xs)
  show ?case
  proof (cases "f x = n")
    case True
    then have "n \<notin> set (map f xs)"
      using Cons.prems(1) by auto
    then have "filter (\<lambda>g. f g = n) xs = []"
      by (auto simp add: filter_empty_conv)
    with True show ?thesis by simp
  next
    case False
    then show ?thesis
      using Cons by auto
  qed
qed

lemma completeInit_members:
  "ghg (fst (completeInit env aSectorName aDepFinder aGlobalTechDB t))
     = (if ghgNameMap t CO2Emissions_getXMLNameStatic = None
        then ghg t @ [CO2Emissions] else ghg t)"
  "ghgNameMap (fst (completeInit env aSectorName aDepFinder aGlobalTechDB t))
     = (if ghgNameMap t CO2Emissions_getXMLNameStatic = None
        then (ghgNameMap t)(CO2Emissions_getXMLNameStatic \<mapsto> int (length (ghg t)))
        else ghgNameMap t)"
  "mOutputs (fst (completeInit env aSectorName aDepFinder aGlobalTechDB t))
     = PrimaryOutput aSectorName # mOutputs t"
  by (auto simp add: completeInit_def Let_def split: option.split)

lemma completeInit_keeps_index:
  assumes "ghgNamesIndexed t"
  shows "ghgNamesIndexed (fst (completeInit env aSectorName aDepFinder aGlobalTechDB t))"
proof (cases "ghgNameMap t CO2Emissions_getXMLNameStatic = None")
  case True
  let ?t' = "fst (completeInit env aSectorName aDepFinder aGlobalTechDB t)"
  have d: "distinct (ghgNames t)"
    using assms by (simp add: ghgNamesIndexed_def)
  have l: "length (ghg t) = length (ghgNames t)"
    by (simp add: ghgNames_def)
  have m: "ghgNameMap t = map_of (zip (ghgNames t) (map int [0 ..< length (ghgNames t)]))"
    using assms by (simp add: ghgNamesIndexed_def l)
  have new: "CO2Emissions_getXMLNameStatic \<notin> set (ghgNames t)"
    using True index_map_None [of "ghgNames t" CO2Emissions_getXMLNameStatic] m by simp
  have n: "getName CO2Emissions = CO2Emissions_getXMLNameStatic"
    by (simp add: CO2Emissions_def)
  have g': "ghg ?t' = ghg t @ [CO2Emissions]"
    using True by (simp add: completeInit_members)
  have m': "ghgNameMap ?t'
              = (ghgNameMap t)(CO2Emissions_getXMLNameStatic \<mapsto> int (length (ghgNames t)))"
    using True by (simp add: completeInit_members l)
  have names: "ghgNames ?t' = ghgNames t @ [CO2Emissions_getXMLNameStatic]"
    by (simp add: ghgNames_def g' n)
  have l': "length (ghg ?t') = Suc (length (ghgNames t))"
    by (simp add: g' l)
  have dist: "distinct (ghgNames ?t')"
    using d new by (simp add: names)
  have "ghgNameMap ?t'
          = map_of (zip (ghgNames t @ [CO2Emissions_getXMLNameStatic])
                        (map int [0 ..< Suc (length (ghgNames t))]))"
    using index_map_snoc [OF new] m m' by (simp only:)
  then have "ghgNameMap ?t' = map_of (zip (ghgNames ?t') (map int [0 ..< length (ghg ?t')]))"
    by (simp only: names l')
  with dist show ?thesis
    unfolding ghgNamesIndexed_def by blast
next
  case False
  have "ghg (fst (completeInit env aSectorName aDepFinder aGlobalTechDB t)) = ghg t"
    and "ghgNameMap (fst (completeInit env aSectorName aDepFinder aGlobalTechDB t))
           = ghgNameMap t"
    using False by (auto simp add: completeInit_members)
  then show ?thesis
    using assms by (simp add: ghgNamesIndexed_def ghgNames_def)
qed

lemma completeInit_indexed_gases:
  assumes "ghgNamesIndexed t"
  shows "ghgNamesIndexed (fst (completeInit env aSectorName aDepFinder aGlobalTechDB t)) \<and>
     distinct (ghgNames (fst (completeInit env aSectorName aDepFinder aGlobalTechDB t))) \<and>
     (\<forall>n \<in> set (ghgNames (fst (completeInit env aSectorName aDepFinder aGlobalTechDB t))).
        length (filter (\<lambda>g. getName g = n)
                  (ghg (fst (completeInit env aSectorName aDepFinder aGlobalTechDB t)))) = 1) \<and>
     CO2Emissions_getXMLNameStatic
       \<in> set (ghgNames (fst (completeInit env aSectorName aDepFinder aGlobalTechDB t))) \<and>
     (CO2Emissions_getXMLNameStatic \<notin> set (ghgNames t)
        \<longrightarrow> ghg (fst (completeInit env aSectorName aDepFinder aGlobalTechDB t))
              = ghg t @ [CO2Emissions]) \<and>
     (CO2Emissions_getXMLNameStatic \<in> set (ghgNames t)
        \<longrightarrow> ghg (fst (completeInit env aSectorName aDepFinder aGlobalTechDB t)) = ghg t)"
proof -
  let ?t' = "fst (completeInit env aSectorName aDepFinder aGlobalTechDB t)"
  have i: "ghgNamesIndexed ?t'"
    using assms by (rule completeInit_keeps_index)
  then have d: "distinct (ghgNames ?t')"
    by (simp add: ghgNamesIndexed_def)
  have one: "\<forall>n \<in> set (ghgNames ?t'). length (filter (\<lambda>g. getName g = n) (ghg ?t')) = 1"
    using d one_per_name [of getName "ghg ?t'"] by (simp add: ghgNames_def)
  have m: "ghgNameMap t CO2Emissions_getXMLNameStatic = None
             \<longleftrightarrow> CO2Emissions_getXMLNameStatic \<notin> set (ghgNames t)"
  proof -
    have "ghgNameMap t = map_of (zip (ghgNames t) (map int [0 ..< length (ghgNames t)]))"
      using assms by (simp add: ghgNamesIndexed_def ghgNames_def)
    then show ?thesis
      using index_map_None [of "ghgNames t" CO2Emissions_getXMLNameStatic] by simp
  qed
  have n: "getName CO2Emissions = CO2Emissions_getXMLNameStatic"
    by (simp add: CO2Emissions_def)
  have absent: "ghg ?t' = ghg t @ [CO2Emissions]"
    if "CO2Emissions_getXMLNameStatic \<notin> set (ghgNames t)"
    using that m by (auto simp add: completeInit_members)
  have present: "ghg ?t' = ghg t"
    if "CO2Emissions_getXMLNameStatic \<in> set (ghgNames t)"
    using that m by (auto simp add: completeInit_members)
  have co2: "CO2Emissions_getXMLNameStatic \<in> set (ghgNames ?t')"
  proof (cases "CO2Emissions_getXMLNameStatic \<in> set (ghgNames t)")
    case True
    then show ?thesis
      using present by (simp add: ghgNames_def)
  next
    case False
    then show ?thesis
      using absent n by (simp add: ghgNames_def)
  qed
  show ?thesis
    using i d one co2 absent present by blast
qed

text \<open>
  C8. \<^verbatim>\<open>completeInit\<close> puts a new primary output of the sector in front of the
  former outputs, so the primary output is at index 0, and it appends a new
  \<^verbatim>\<open>CO2Emissions\<close> when \<^verbatim>\<open>ghgNameMap\<close> has no key CO2. On a technology whose
  \<^verbatim>\<open>ghgNameMap\<close> indexes its gases by name (as the constructor leaves it), the
  result still has this property, so every gas name occurs on exactly one gas
  object, and a gas named CO2 is present: appended when the input had none,
  and otherwise the gases are left as they were.
\<close>

theorem completeInit_CO2_and_primary_output:
  "(let t' = fst (completeInit env aSectorName aDepFinder aGlobalTechDB t)
    in mOutputs t' = PrimaryOutput aSectorName # mOutputs t \<and>
       mOutputs t' ! 0 = PrimaryOutput aSectorName \<and>
       (ghgNameMap t CO2Emissions_getXMLNameStatic = None
          \<longrightarrow> ghg t' = ghg t @ [CO2Emissions]) \<and>
       (ghgNamesIndexed t \<longrightarrow>
          ghgNamesIndexed t' \<and>
          distinct (ghgNames t') \<and>
          (\<forall>n \<in> set (ghgNames t'). length (filter (\<lambda>g. getName g = n) (ghg t')) = 1) \<and>
          CO2Emissions_getXMLNameStatic \<in> set (ghgNames t') \<and>
          (CO2Emissions_getXMLNameStatic \<notin> set (ghgNames t)
             \<longrightarrow> ghg t' = ghg t @ [CO2Emissions]) \<and>
          (CO2Emissions_getXMLNameStatic \<in> set (ghgNames t) \<longrightarrow> ghg t' = ghg t)))"
proof -
  let ?t' = "fst (completeInit env aSectorName aDepFinder aGlobalTechDB t)"
  have out: "mOutputs ?t' = PrimaryOutput aSectorName # mOutputs t"
    by (simp add: completeInit_members)
  then have first: "mOutputs ?t' ! 0 = PrimaryOutput aSectorName"
    by simp
  have new: "ghgNameMap t CO2Emissions_getXMLNameStatic = None
               \<longrightarrow> ghg ?t' = ghg t @ [CO2Emissions]"
    by (simp add: completeInit_members)
  show ?thesis
    unfolding Let_def
    using out first new
      completeInit_indexed_gases [of t env aSectorName aDepFinder aGlobalTechDB]
    by blast
qed

theorem completeInit_CO2_and_primary_output_witness:
  "ghgNamesIndexed (new_technology ''coal plant'' 1990) \<and>
   ghgNames (fst (completeInit example_environment ''electricity'' True None
                    (new_technology ''coal plant'' 1990))) = [''CO2''] \<and>
   mOutputs (fst (completeInit example_environment ''electricity'' True None
                    (new_technology ''coal plant'' 1990))) = [PrimaryOutput ''electricity''] \<and>
   ghgNamesIndexed example_one_gas \<and>
   CO2Emissions_getXMLNameStatic \<notin> set (ghgNames example_one_gas) \<and>
   ghgNames (fst (completeInit example_environment ''electricity'' True None example_one_gas))
     = [''CH4'', ''CO2''] \<and>
   mOutputs (fst (completeInit example_environment ''electricity'' True None example_one_gas)) ! 0
     = PrimaryOutput ''electricity'' \<and>
   length (filter (\<lambda>g. getName g = ''CO2'')
             (ghg (fst (completeInit example_environment ''electricity'' True None
                          example_one_gas)))) = 1 \<and>
   ghgNamesIndexed example_two_gases \<and>
   CO2Emissions_getXMLNameStatic \<in> set (ghgNames example_two_gases) \<and>
   ghgNames (fst (completeInit example_environment ''electricity'' False None example_two_gases))
     = [''CH4'', ''CO2'']"
proof -
  have h3: "ghgNamesIndexed example_two_gases"
    by (simp add: ghgNamesIndexed_def ghgNames_def example_two_gases_def example_CH4_def
          CO2Emissions_def CO2Emissions_getXMLNameStatic_def)
  have a3: "CO2Emissions_getXMLNameStatic \<in> set (ghgNames example_two_gases)"
    by (simp add: ghgNames_def example_two_gases_def CO2Emissions_def)
  have g3: "ghg (fst (completeInit example_environment ''electricity'' False None
                        example_two_gases)) = ghg example_two_gases"
    using completeInit_CO2_and_primary_output
            [of example_environment "''electricity''" False None example_two_gases] h3 a3
    by (simp add: Let_def)
  have n3: "ghgNames (fst (completeInit example_environment ''electricity'' False None
                             example_two_gases)) = [''CH4'', ''CO2'']"
    by (simp add: ghgNames_def g3)
       (simp add: example_two_gases_def example_CH4_def CO2Emissions_def
          CO2Emissions_getXMLNameStatic_def)
  have h1: "ghgNamesIndexed (new_technology ''coal plant'' 1990)"
    by (simp add: ghgNamesIndexed_def ghgNames_def new_technology_def)
  have h2: "ghgNamesIndexed example_one_gas"
    by (simp add: ghgNamesIndexed_def ghgNames_def example_one_gas_def example_CH4_def)
  have a1: "CO2Emissions_getXMLNameStatic \<notin> set (ghgNames (new_technology ''coal plant'' 1990))"
    by (simp add: ghgNames_def new_technology_def)
  have a2: "CO2Emissions_getXMLNameStatic \<notin> set (ghgNames example_one_gas)"
    by (simp add: ghgNames_def example_one_gas_def example_CH4_def
          CO2Emissions_getXMLNameStatic_def)
  note r1 = completeInit_CO2_and_primary_output
              [of example_environment "''electricity''" True None
                  "new_technology ''coal plant'' 1990"]
  note r2 = completeInit_CO2_and_primary_output
              [of example_environment "''electricity''" True None example_one_gas]
  have g1: "ghg (fst (completeInit example_environment ''electricity'' True None
                        (new_technology ''coal plant'' 1990))) = [CO2Emissions]"
    using r1 h1 a1 by (simp add: Let_def new_technology_def)
  have g2: "ghg (fst (completeInit example_environment ''electricity'' True None example_one_gas))
              = [example_CH4, CO2Emissions]"
    using r2 h2 a2 by (simp add: Let_def example_one_gas_def)
  have o1: "mOutputs (fst (completeInit example_environment ''electricity'' True None
                        (new_technology ''coal plant'' 1990))) = [PrimaryOutput ''electricity'']"
    using r1 by (simp add: Let_def new_technology_def)
  have o2: "mOutputs (fst (completeInit example_environment ''electricity'' True None
                             example_one_gas)) ! 0 = PrimaryOutput ''electricity''"
    using r2 by (simp add: Let_def)
  have "ghgNames (fst (completeInit example_environment ''electricity'' True None
                         (new_technology ''coal plant'' 1990))) = [''CO2'']"
    by (simp add: ghgNames_def g1 CO2Emissions_def CO2Emissions_getXMLNameStatic_def)
  moreover
  have "ghgNames (fst (completeInit example_environment ''electricity'' True None
                         example_one_gas)) = [''CH4'', ''CO2'']"
    by (simp add: ghgNames_def g2 CO2Emissions_def CO2Emissions_getXMLNameStatic_def
          example_CH4_def)
  moreover
  have "length (filter (\<lambda>g. getName g = ''CO2'')
             (ghg (fst (completeInit example_environment ''electricity'' True None
                          example_one_gas)))) = 1"
    by (simp add: g2 CO2Emissions_def CO2Emissions_getXMLNameStatic_def example_CH4_def)
  ultimately show ?thesis
    using h1 h2 h3 a2 a3 o1 o2 n3 by blast
qed

subsection \<open>The gases and the technology information after completeInit\<close>

lemma completeInit_techData:
  "\<exists>d. mTechData (fst (completeInit env aSectorName aDepFinder aGlobalTechDB t)) = Some d"
  by (auto simp add: completeInit_def Let_def split: option.split)

lemma completeInit_has_gas:
  assumes "ghgNamesIndexed t"
  shows "ghg (fst (completeInit env aSectorName aDepFinder aGlobalTechDB t)) \<noteq> []"
proof -
  have "CO2Emissions_getXMLNameStatic
          \<in> set (ghgNames (fst (completeInit env aSectorName aDepFinder aGlobalTechDB t)))"
    using completeInit_indexed_gases [OF assms] by blast
  then show ?thesis
    by (auto simp add: ghgNames_def)
qed

text \<open>
  C10. After \<^verbatim>\<open>calcEmission\<close> on a technology that holds a gas, the map by fuel
  has exactly one entry; its key is the fuel name of the technology alone, and
  its value the \<^verbatim>\<open>getEmissFuel\<close> of the last gas of the vector, each pass of the
  loop overwriting the entry of the pass before. Every technology holds a gas
  once \<^verbatim>\<open>completeInit\<close> has run on it (CO2 at least), so this is what
  \<^verbatim>\<open>calcEmission\<close> leaves on an initialized technology.
\<close>

theorem calcEmission_emfuelmap_last_gas:
  "(mTechData t = Some d \<and> ghg t \<noteq> [] \<longrightarrow>
      (\<exists>t'. calcEmission aGoodName aPeriod t = Inr t' \<and>
            emfuelmap t' = [fuelname d \<mapsto> getEmissFuel (last (ghg t)) aPeriod] \<and>
            dom (emfuelmap t') = {fuelname d} \<and>
            emfuelmap t' (fuelname d) = Some (getEmissFuel (last (ghg t)) aPeriod))) \<and>
   (ghgNamesIndexed t0 \<longrightarrow>
      (let tc = fst (completeInit env aSectorName aDepFinder aGlobalTechDB t0)
       in \<exists>dc t'. mTechData tc = Some dc \<and>
            calcEmission aGoodName aPeriod tc = Inr t' \<and>
            emfuelmap t' = [fuelname dc \<mapsto> getEmissFuel (last (ghg tc)) aPeriod] \<and>
            dom (emfuelmap t') = {fuelname dc}))"
proof -
  have main: "\<exists>t'. calcEmission aGoodName aPeriod u = Inr t' \<and>
            emfuelmap t' = [fuelname e \<mapsto> getEmissFuel (last (ghg u)) aPeriod] \<and>
            dom (emfuelmap t') = {fuelname e} \<and>
            emfuelmap t' (fuelname e) = Some (getEmissFuel (last (ghg u)) aPeriod)"
    if m: "mTechData u = Some e" and n: "ghg u \<noteq> []" for u e
  proof -
    let ?u0 = "u\<lparr>emissmap := Map.empty, emfuelmap := Map.empty\<rparr>"
    have "mTechData ?u0 = Some e"
      using m by simp
    from calcEmissionLoop_emfuelmap [OF this, of aPeriod "ghg u"]
    obtain t' where "calcEmissionLoop aPeriod (ghg u) ?u0 = Inr t'"
      and "emfuelmap t' = [fuelname e \<mapsto> getEmissFuel (last (ghg u)) aPeriod]"
      using n by auto
    then show ?thesis
      by (auto simp add: calcEmission_def)
  qed
  have first: "mTechData t = Some d \<and> ghg t \<noteq> [] \<longrightarrow>
      (\<exists>t'. calcEmission aGoodName aPeriod t = Inr t' \<and>
            emfuelmap t' = [fuelname d \<mapsto> getEmissFuel (last (ghg t)) aPeriod] \<and>
            dom (emfuelmap t') = {fuelname d} \<and>
            emfuelmap t' (fuelname d) = Some (getEmissFuel (last (ghg t)) aPeriod))"
    using main by blast
  have second: "\<exists>dc t'. mTechData tc = Some dc \<and>
            calcEmission aGoodName aPeriod tc = Inr t' \<and>
            emfuelmap t' = [fuelname dc \<mapsto> getEmissFuel (last (ghg tc)) aPeriod] \<and>
            dom (emfuelmap t') = {fuelname dc}"
    if i: "ghgNamesIndexed t0"
      and tc: "tc = fst (completeInit env aSectorName aDepFinder aGlobalTechDB t0)" for tc
  proof -
    obtain dc where dc: "mTechData tc = Some dc"
      using completeInit_techData [of env aSectorName aDepFinder aGlobalTechDB t0] tc by blast
    have "ghg tc \<noteq> []"
      using completeInit_has_gas [OF i] tc by simp
    with main [OF dc] dc show ?thesis
      by blast
  qed
  show ?thesis
    unfolding Let_def using first second by blast
qed

theorem calcEmission_emfuelmap_last_gas_witness:
  "mTechData example_two_gases = Some example_info \<and>
   ghg example_two_gases \<noteq> [] \<and>
   (\<exists>t'. calcEmission ''electricity'' 1 example_two_gases = Inr t' \<and>
         emfuelmap t' = [''coal'' \<mapsto> 7] \<and> dom (emfuelmap t') = {''coal''}) \<and>
   ghgNamesIndexed example_one_gas \<and>
   (\<exists>t'. calcEmission ''electricity'' 1
           (fst (completeInit example_environment ''electricity'' True None example_one_gas))
           = Inr t' \<and>
         emfuelmap t' = [[] \<mapsto> 0] \<and> dom (emfuelmap t') = {[]})"
proof -
  let ?tc = "fst (completeInit example_environment ''electricity'' True None example_one_gas)"
  have h: "mTechData example_two_gases = Some example_info"
    by (simp add: example_two_gases_def example_technology_def)
  have g: "ghg example_two_gases = [example_CH4, CO2Emissions\<lparr>getEmissFuel := (\<lambda>aPeriod. 7)\<rparr>]"
    by (simp add: example_two_gases_def)
  have n: "ghg example_two_gases \<noteq> []"
    by (simp add: g)
  have i: "ghgNamesIndexed example_one_gas"
    by (simp add: ghgNamesIndexed_def ghgNames_def example_one_gas_def example_CH4_def)
  note r = calcEmission_emfuelmap_last_gas
             [where t = example_two_gases and d = example_info and aGoodName = "''electricity''"
                and aPeriod = 1 and ?t0.0 = example_one_gas and env = example_environment
                and aSectorName = "''electricity''" and aDepFinder = True
                and aGlobalTechDB = None]
  obtain t' where "calcEmission ''electricity'' 1 example_two_gases = Inr t'"
    and "emfuelmap t' = [fuelname example_info \<mapsto>
           getEmissFuel (last (ghg example_two_gases)) 1]"
    and "dom (emfuelmap t') = {fuelname example_info}"
    using r h n by blast
  then have first: "\<exists>t'. calcEmission ''electricity'' 1 example_two_gases = Inr t' \<and>
         emfuelmap t' = [''coal'' \<mapsto> 7] \<and> dom (emfuelmap t') = {''coal''}"
    by (simp add: g example_info_def)
  have m: "mTechData ?tc = Some (example_info\<lparr>fuelname := []\<rparr>)"
    by (simp add: completeInit_def Let_def example_one_gas_def new_technology_def
          example_environment_def)
  have gc: "ghg ?tc = [example_CH4, CO2Emissions]"
    by (simp add: completeInit_members example_one_gas_def example_CH4_def
          CO2Emissions_getXMLNameStatic_def)
  obtain dc t2 where c: "mTechData ?tc = Some dc"
    and e: "calcEmission ''electricity'' 1 ?tc = Inr t2"
    and f: "emfuelmap t2 = [fuelname dc \<mapsto> getEmissFuel (last (ghg ?tc)) 1]"
    and k: "dom (emfuelmap t2) = {fuelname dc}"
    using r i unfolding Let_def by blast
  have "dc = example_info\<lparr>fuelname := []\<rparr>"
    using c m by simp
  then have "fuelname dc = []"
    by simp
  then have "calcEmission ''electricity'' 1 ?tc = Inr t2 \<and>
         emfuelmap t2 = [[] \<mapsto> 0] \<and> dom (emfuelmap t2) = {[]}"
    using e f k by (simp add: gc CO2Emissions_def)
  then have second: "\<exists>t'. calcEmission ''electricity'' 1 ?tc = Inr t' \<and>
         emfuelmap t' = [[] \<mapsto> 0] \<and> dom (emfuelmap t') = {[]}"
    by blast
  show ?thesis
    using h n i first second by blast
qed

end
